theory Spec2Isabelle
  imports Main "HOL-Library.AList" "HOL-Library.Sublist"
begin

section \<open>Python values and dictionaries\<close>

text \<open>
  The modules work on the parameter dictionaries of an Ansible module. A value is one of
  the JSON-like Python values the argument specification admits. A dictionary is an
  association list in insertion order, as a Python dict keeps it: \<open>d[k] = v\<close> is
  \<open>AList.update k v d\<close> (in place when the key exists, appended otherwise),
  \<open>d.pop(k, None)\<close> is \<open>AList.delete k d\<close>, \<open>d[k]\<close> is \<open>map_of d k\<close> with
  \<open>None\<close> standing for the \<open>KeyError\<close>, and \<open>list(d.keys())\<close> is \<open>map fst d\<close>.
\<close>

datatype pyval =
    VNone
  | VBool bool
  | VInt int
  | VStr string
  | VList "pyval list"
  | VDict "(string \<times> pyval) list"

type_synonym dict = "(string \<times> pyval) list"

text \<open>Python truthiness, \<open>if v\<close> and \<open>not v\<close>.\<close>

fun truthy :: "pyval \<Rightarrow> bool" where
  "truthy VNone = False"
| "truthy (VBool b) = b"
| "truthy (VInt i) = (i \<noteq> 0)"
| "truthy (VStr s) = (s \<noteq> [])"
| "truthy (VList xs) = (xs \<noteq> [])"
| "truthy (VDict d) = (d \<noteq> [])"

text \<open>\<open>k in d\<close> for a dictionary \<open>d\<close>.\<close>

definition has_key :: "dict \<Rightarrow> string \<Rightarrow> bool" where
  "has_key d k = (k \<in> set (map fst d))"

datatype exn = KeyError | TypeError | AttributeError | IndexError

text \<open>
  The argument of \<open>fail_json(msg=...)\<close>: a literal text, or a literal text
  \<open>%\<close>-formatted with the view of a dictionary's keys.
\<close>

datatype message = Msg string | Msg_keys string "string list"

text \<open>
  A run stops early by \<open>fail_json\<close> or by an uncaught Python exception. The helper
  methods that talk to the remote service fail by \<open>fail_json\<close> with a message of
  their own.
\<close>

datatype failure = Fail_json message | Raised exn

text \<open>\<open>k in v\<close> for a string \<open>k\<close> and any value \<open>v\<close>: substring, list element,
  dictionary key; the other values are not iterable.\<close>

fun str_in :: "string \<Rightarrow> pyval \<Rightarrow> exn + bool" where
  "str_in k (VStr s) = Inr (sublist k s)"
| "str_in k (VList xs) = Inr (VStr k \<in> set xs)"
| "str_in k (VDict d) = Inr (has_key d k)"
| "str_in k v = Inl TypeError"

text \<open>\<open>for x in v\<close>: the elements of a list, the characters of a string, the keys of a
  dictionary.\<close>

fun py_iter :: "pyval \<Rightarrow> exn + pyval list" where
  "py_iter (VList xs) = Inr xs"
| "py_iter (VStr s) = Inr (map (\<lambda>c. VStr [c]) s)"
| "py_iter (VDict d) = Inr (map (\<lambda>kv. VStr (fst kv)) d)"
| "py_iter v = Inl TypeError"

text \<open>
  \<open>str.lower()\<close> is Python's built-in, which lower-cases by the Unicode tables. It
  is a parameter \<open>str_lower\<close> of the model, which assumes nothing about it.
\<close>

section \<open>The module and its helper\<close>

text \<open>The \<open>state\<close> parameter of a module.\<close>

datatype state = Present | Present_with_defaults | Absent

text \<open>
  Modelled from the spec: \<open>module.desired_absent\<close> is set by the helper module, which is
  not among the sources; it is the spec's "the desired terminal state is absent".
\<close>

definition desired_absent :: "state \<Rightarrow> bool" where
  "desired_absent st = (st = Absent)"

text \<open>
  What a run does to the outside, in order. Each helper call is recorded with its
  arguments; \<open>Run\<close> also records what the reconciliation returned.
\<close>

datatype event =
    Api_connection
  | List_resource string
  | Show_resource string pyval
  | Find_resource_by_name string pyval
  | Resolve_entities dict "dict option"
  | Ensure_entity string dict "dict option"
  | Auto_lookup_entities dict
  | Run dict "failure + dict option"
  | Ensure_puppetclasses string dict pyval

text \<open>
  The helper methods of the module object (\<open>foreman_helper\<close>, not among the sources) are
  parameters of the model. Each takes the state \<open>'s\<close> of the remote service and the
  session and returns the new one: the model assumes nothing about what they answer.
  \<open>api_connection\<close> is the entry of the \<open>with\<close> block; \<open>ensure_entity\<close> returns
  whether it changed the remote entity (the module's \<open>changed\<close> flag).
\<close>

record 's helper =
  api_connection :: "'s \<Rightarrow> failure option \<times> 's"
  list_resource :: "string \<Rightarrow> 's \<Rightarrow> (failure + dict list) \<times> 's"
  show_resource :: "string \<Rightarrow> pyval \<Rightarrow> 's \<Rightarrow> (failure + dict) \<times> 's"
  find_resource_by_name :: "string \<Rightarrow> pyval \<Rightarrow> 's \<Rightarrow> (failure + dict option) \<times> 's"
  resolve_entities :: "dict \<Rightarrow> dict option \<Rightarrow> 's \<Rightarrow> (failure + dict option \<times> dict) \<times> 's"
  ensure_entity :: "string \<Rightarrow> dict \<Rightarrow> dict option \<Rightarrow> 's \<Rightarrow> (failure + bool) \<times> 's"
  auto_lookup_entities :: "dict \<Rightarrow> 's \<Rightarrow> (failure + dict) \<times> 's"
  run :: "dict \<Rightarrow> 's \<Rightarrow> (failure + dict option) \<times> 's"
  ensure_puppetclasses :: "dict \<Rightarrow> dict \<Rightarrow> pyval \<Rightarrow> 's \<Rightarrow> failure option \<times> 's"

text \<open>How a run ends: \<open>fail_json\<close> or an exception, \<open>exit_json\<close> with the
  \<open>changed\<close> flag, or the end of \<open>main\<close>.\<close>

datatype outcome = Failed failure | Exit_json bool | Returned

record 's result =
  log :: "event list"
  warnings :: "string list"
  outcome :: outcome
  remote :: 's

section \<open>The host module (\<open>plugins/modules/host.py\<close>)\<close>

text \<open>
  Modelled from the spec: the constructor \<open>ForemanHostModule(...)\<close> validates the
  arguments in code that is not among the sources. \<open>main\<close> passes it
  \<open>mutually_exclusive=[['owner', 'owner_group']]\<close> (lines 418-420); by the spec
  (4.2, mutual exclusion) input that provides both is rejected. The parameters that pass
  become \<open>module.foreman_params\<close>.
\<close>

definition ForemanHostModule :: "dict \<Rightarrow> failure + dict" where
  "ForemanHostModule supplied =
     (if has_key supplied ''owner'' \<and> has_key supplied ''owner_group''
      then Inl (Fail_json (Msg ''parameters are mutually exclusive: owner|owner_group''))
      else Inr supplied)"

text \<open>Lines 426-428: the name must contain a dot.\<close>

definition check_hostname :: "dict \<Rightarrow> failure option" where
  "check_hostname fp =
     (case map_of fp ''name'' of
        None \<Rightarrow> Some (Raised KeyError)
      | Some v \<Rightarrow>
          (case str_in ''.'' v of
             Inl e \<Rightarrow> Some (Raised e)
           | Inr b \<Rightarrow>
               if \<not> b then Some (Fail_json (Msg ''The hostname must be FQDN'')) else None))"

text \<open>Lines 431-438: \<open>build\<close> forces \<open>managed\<close>; an unmanaged host without \<open>build\<close>
  gets an explicit \<open>build = False\<close>. The second component is the warnings emitted.\<close>

definition managed_warning :: string where
  "managed_warning = ''when 'build'=True, 'managed' is ignored and forced to True''"

definition couple_build_managed :: "dict \<Rightarrow> dict \<times> string list" where
  "couple_build_managed fp =
     (case map_of fp ''build'' of
        Some b \<Rightarrow>
          if truthy b then
            (AList.update ''managed'' (VBool True) fp,
             case map_of fp ''managed'' of
               Some m \<Rightarrow> if \<not> truthy m then [managed_warning] else []
             | None \<Rightarrow> [])
          else (fp, [])
      | None \<Rightarrow>
          (case map_of fp ''managed'' of
             Some m \<Rightarrow>
               if \<not> truthy m then (AList.update ''build'' (VBool False) fp, []) else (fp, [])
           | None \<Rightarrow> (fp, [])))"

text \<open>Lines 440-441: the hardware address is lower-cased.\<close>

definition lower_mac :: "(string \<Rightarrow> string) \<Rightarrow> dict \<Rightarrow> failure + dict" where
  "lower_mac str_lower fp =
     (case map_of fp ''mac'' of
        None \<Rightarrow> Inr fp
      | Some (VStr s) \<Rightarrow> Inr (AList.update ''mac'' (VStr (str_lower s)) fp)
      | Some _ \<Rightarrow> Inl (Raised AttributeError))"

text \<open>Lines 443-446: the discriminator of the owner.\<close>

definition derive_owner_type :: "dict \<Rightarrow> dict" where
  "derive_owner_type fp =
     (if has_key fp ''owner'' then AList.update ''owner_type'' (VStr ''User'') fp
      else if has_key fp ''owner_group'' then AList.update ''owner_type'' (VStr ''Usergroup'') fp
      else fp)"

text \<open>Lines 448-450: in every interface the keys with a falsy value are dropped, and
  then the interfaces that are left empty.\<close>

definition prune_nic :: "dict \<Rightarrow> dict" where
  "prune_nic obj = filter (\<lambda>kv. truthy (snd kv)) obj"

fun prune_nics :: "pyval list \<Rightarrow> failure + dict list" where
  "prune_nics [] = Inr []"
| "prune_nics (VDict obj # objs) =
     (case prune_nics objs of
        Inl f \<Rightarrow> Inl f
      | Inr nics \<Rightarrow> Inr (prune_nic obj # nics))"
| "prune_nics (v # objs) = Inl (Raised AttributeError)"

definition filter_interfaces :: "dict \<Rightarrow> failure + dict" where
  "filter_interfaces fp =
     (case map_of fp ''interfaces_attributes'' of
        None \<Rightarrow> Inr fp
      | Some v \<Rightarrow>
          (case py_iter v of
             Inl e \<Rightarrow> Inl (Raised e)
           | Inr objs \<Rightarrow>
               (case prune_nics objs of
                  Inl f \<Rightarrow> Inl f
                | Inr nics \<Rightarrow>
                    Inr (AList.update ''interfaces_attributes''
                           (VList (map VDict (filter (\<lambda>nic. nic \<noteq> []) nics))) fp))))"

text \<open>Lines 430-450 together: the warnings emitted and the normalized parameters.\<close>

definition normalize_params ::
  "(string \<Rightarrow> string) \<Rightarrow> state \<Rightarrow> dict \<Rightarrow> string list \<times> (failure + dict)" where
  "normalize_params str_lower st fp =
     (if \<not> desired_absent st then
        (let (fp1, ws) = couple_build_managed fp in
           (ws,
            case lower_mac str_lower fp1 of
              Inl f \<Rightarrow> Inl f
            | Inr fp2 \<Rightarrow> filter_interfaces (derive_owner_type fp2)))
      else ([], Inr fp))"

text \<open>Lines 452-458: inside the API connection.\<close>

definition host_connected :: "'s helper \<Rightarrow> state \<Rightarrow> dict \<Rightarrow> string list \<Rightarrow> 's \<Rightarrow> 's result" where
  "host_connected api st fp ws s =
     (case api_connection api s of
        (Some f, s1) \<Rightarrow>
          \<lparr>log = [Api_connection], warnings = ws, outcome = Failed f, remote = s1\<rparr>
      | (None, s1) \<Rightarrow>
          (case (if \<not> desired_absent st then auto_lookup_entities api fp s1 else (Inr fp, s1)) of
             (Inl f, s2) \<Rightarrow>
               \<lparr>log = [Api_connection, Auto_lookup_entities fp], warnings = ws,
                outcome = Failed f, remote = s2\<rparr>
           | (Inr fp2, s2) \<Rightarrow>
               (let expected_puppetclasses =
                      (case map_of fp2 ''puppetclasses'' of None \<Rightarrow> VNone | Some v \<Rightarrow> v);
                    fp3 = AList.delete ''puppetclasses'' fp2;
                    lg = Api_connection #
                      (if \<not> desired_absent st then [Auto_lookup_entities fp] else [])
                in
                  (case run api fp3 s2 of
                     (Inl f, s3) \<Rightarrow>
                       \<lparr>log = lg @ [Run fp3 (Inl f)], warnings = ws,
                        outcome = Failed f, remote = s3\<rparr>
                   | (Inr entity, s3) \<Rightarrow>
                       if \<not> desired_absent st then
                         (case entity of
                            None \<Rightarrow>
                              \<lparr>log = lg @ [Run fp3 (Inr entity)], warnings = ws,
                               outcome = Failed (Raised TypeError), remote = s3\<rparr>
                          | Some e \<Rightarrow>
                              if has_key e ''environment_id'' then
                                (case ensure_puppetclasses api fp3 e expected_puppetclasses s3 of
                                   (Some f, s4) \<Rightarrow>
                                     \<lparr>log = lg @ [Run fp3 (Inr entity),
                                        Ensure_puppetclasses ''host'' e expected_puppetclasses],
                                      warnings = ws, outcome = Failed f, remote = s4\<rparr>
                                 | (None, s4) \<Rightarrow>
                                     \<lparr>log = lg @ [Run fp3 (Inr entity),
                                        Ensure_puppetclasses ''host'' e expected_puppetclasses],
                                      warnings = ws, outcome = Returned, remote = s4\<rparr>)
                              else
                                \<lparr>log = lg @ [Run fp3 (Inr entity)], warnings = ws,
                                 outcome = Returned, remote = s3\<rparr>)
                       else
                         \<lparr>log = lg @ [Run fp3 (Inr entity)], warnings = ws,
                          outcome = Returned, remote = s3\<rparr>))))"

text \<open>\<open>main\<close> of the host module: the constructor, the name check, the normalization,
  then the connected part.\<close>

definition host_main ::
  "'s helper \<Rightarrow> (string \<Rightarrow> string) \<Rightarrow> state \<Rightarrow> dict \<Rightarrow> 's \<Rightarrow> 's result" where
  "host_main api str_lower st supplied s =
     (case ForemanHostModule supplied of
        Inl f \<Rightarrow> \<lparr>log = [], warnings = [], outcome = Failed f, remote = s\<rparr>
      | Inr fp \<Rightarrow>
          (case check_hostname fp of
             Some f \<Rightarrow> \<lparr>log = [], warnings = [], outcome = Failed f, remote = s\<rparr>
           | None \<Rightarrow>
               (case normalize_params str_lower st fp of
                  (ws, Inl f) \<Rightarrow> \<lparr>log = [], warnings = ws, outcome = Failed f, remote = s\<rparr>
                | (ws, Inr fp') \<Rightarrow> host_connected api st fp' ws s)))"

section \<open>The installation medium module (\<open>plugins/modules/foreman_installation_medium.py\<close>)\<close>

text \<open>
  Lines 113-122, under \<open>name: *\<close>: the combinations that are refused. \<open>params\<close> is
  \<open>module.params\<close> (it holds \<open>updated_name\<close>), \<open>module_params\<close> is
  \<open>module.foreman_params\<close>.
\<close>

definition check_wildcard :: "state \<Rightarrow> dict \<Rightarrow> dict \<Rightarrow> failure option" where
  "check_wildcard st params module_params =
     (if st = Present_with_defaults then
        Some (Fail_json (Msg '''state: present_with_defaults' and 'name: *' cannot be used together''))
      else
        (case map_of params ''updated_name'' of
           None \<Rightarrow> Some (Raised KeyError)
         | Some u \<Rightarrow>
             if truthy u then Some (Fail_json (Msg ''updated_name not allowed if 'name: *'!''))
             else if desired_absent st \<and> map fst module_params \<noteq> [''name'', ''entity''] then
               Some (Fail_json (Msg_keys
                 ''When deleting all installation media, there is no need to specify further parameters: %s ''
                 (map fst (AList.delete ''entity'' (AList.delete ''name'' module_params)))))
             else None))"

text \<open>Line 127: every listed entity is fetched in full, in listing order.\<close>

fun show_all :: "'s helper \<Rightarrow> dict list \<Rightarrow> 's \<Rightarrow> event list \<times> (failure + dict list) \<times> 's" where
  "show_all api [] s = ([], Inr [], s)"
| "show_all api (entity # rest) s =
     (case map_of entity ''id'' of
        None \<Rightarrow> ([], Inl (Raised KeyError), s)
      | Some i \<Rightarrow>
          (case show_resource api ''media'' i s of
             (Inl f, s1) \<Rightarrow> ([Show_resource ''media'' i], Inl f, s1)
           | (Inr full, s1) \<Rightarrow>
               (case show_all api rest s1 of
                  (lg, Inl f, s2) \<Rightarrow> (Show_resource ''media'' i # lg, Inl f, s2)
                | (lg, Inr fulls, s2) \<Rightarrow> (Show_resource ''media'' i # lg, Inr (full # fulls), s2))))"

text \<open>
  Lines 124-132: the entities to reconcile. Under the wildcard the collection is listed
  (and fetched in full unless the state is absent), and an empty collection ends the run
  by \<open>exit_json()\<close>, which reports the module's \<open>changed\<close> flag; otherwise the one entity
  is looked up by name. The comprehension of line 127 does not rebind \<open>entity\<close> (Python 3
  scoping), which stays \<open>None\<close> under the wildcard.
\<close>

definition locate ::
  "'s helper \<Rightarrow> state \<Rightarrow> bool \<Rightarrow> dict \<Rightarrow> bool \<Rightarrow> 's \<Rightarrow>
     event list \<times> (outcome + dict list \<times> dict option) \<times> 's" where
  "locate api st affects_multiple module_params changed s =
     (if affects_multiple then
        (case list_resource api ''media'' s of
           (Inl f, s1) \<Rightarrow> ([List_resource ''media''], Inl (Failed f), s1)
         | (Inr entities, s1) \<Rightarrow>
             (case (if \<not> desired_absent st then show_all api entities s1
                    else ([], Inr entities, s1)) of
                (lg, Inl f, s2) \<Rightarrow> (List_resource ''media'' # lg, Inl (Failed f), s2)
              | (lg, Inr entities', s2) \<Rightarrow>
                  if entities' = [] then (List_resource ''media'' # lg, Inl (Exit_json changed), s2)
                  else (List_resource ''media'' # lg, Inr (entities', None), s2)))
      else
        (case map_of module_params ''name'' of
           None \<Rightarrow> ([], Inl (Failed (Raised KeyError)), s)
         | Some name \<Rightarrow>
             (case find_resource_by_name api ''media'' name s of
                (Inl f, s1) \<Rightarrow> ([Find_resource_by_name ''media'' name], Inl (Failed f), s1)
              | (Inr entity, s1) \<Rightarrow> ([Find_resource_by_name ''media'' name], Inr ([], entity), s1))))"

text \<open>\<open>len(v)\<close> and \<open>v[0]['id']\<close> on a value.\<close>

fun py_len :: "pyval \<Rightarrow> exn + nat" where
  "py_len (VList xs) = Inr (length xs)"
| "py_len (VStr s) = Inr (length s)"
| "py_len (VDict d) = Inr (length d)"
| "py_len v = Inl TypeError"

fun first_id :: "pyval \<Rightarrow> exn + pyval" where
  "first_id (VList []) = Inl IndexError"
| "first_id (VList (VDict d # xs)) =
     (case map_of d ''id'' of None \<Rightarrow> Inl KeyError | Some i \<Rightarrow> Inr i)"
| "first_id (VList (x # xs)) = Inl TypeError"
| "first_id (VStr []) = Inl IndexError"
| "first_id (VStr (c # cs)) = Inl TypeError"
| "first_id (VDict d) = Inl KeyError"
| "first_id v = Inl TypeError"

text \<open>
  Lines 134-138: unless the state is absent, the references are resolved; then, for a
  single entity that does not exist yet, with exactly one operating system and no
  \<open>os_family\<close>, the family of that operating system is fetched and stored.
\<close>

definition resolve ::
  "'s helper \<Rightarrow> state \<Rightarrow> bool \<Rightarrow> dict \<Rightarrow> dict option \<Rightarrow> 's \<Rightarrow>
     event list \<times> (failure + dict) \<times> 's" where
  "resolve api st affects_multiple module_params entity s =
     (if \<not> desired_absent st then
        (case resolve_entities api module_params entity s of
           (Inl f, s1) \<Rightarrow> ([Resolve_entities module_params entity], Inl f, s1)
         | (Inr (entity', mp), s1) \<Rightarrow>
             (case map_of mp ''operatingsystems'' of
                None \<Rightarrow> ([Resolve_entities module_params entity], Inr mp, s1)
              | Some oses \<Rightarrow>
                  if affects_multiple then ([Resolve_entities module_params entity], Inr mp, s1)
                  else
                    (case py_len oses of
                       Inl e \<Rightarrow> ([Resolve_entities module_params entity], Inl (Raised e), s1)
                     | Inr n \<Rightarrow>
                         if n = 1 \<and> \<not> has_key mp ''os_family'' \<and> entity = None then
                           (case first_id oses of
                              Inl e \<Rightarrow> ([Resolve_entities module_params entity], Inl (Raised e), s1)
                            | Inr i \<Rightarrow>
                                (case show_resource api ''operatingsystems'' i s1 of
                                   (Inl f, s2) \<Rightarrow>
                                     ([Resolve_entities module_params entity,
                                       Show_resource ''operatingsystems'' i], Inl f, s2)
                                 | (Inr os, s2) \<Rightarrow>
                                     (case map_of os ''family'' of
                                        None \<Rightarrow>
                                          ([Resolve_entities module_params entity,
                                            Show_resource ''operatingsystems'' i],
                                           Inl (Raised KeyError), s2)
                                      | Some family \<Rightarrow>
                                          ([Resolve_entities module_params entity,
                                            Show_resource ''operatingsystems'' i],
                                           Inr (AList.update ''os_family'' family mp), s2))))
                         else ([Resolve_entities module_params entity], Inr mp, s1))))
      else ([], Inr module_params, s))"

text \<open>Lines 144-145: every entity is reconciled in turn; the first failure ends the loop.\<close>

fun ensure_all ::
  "'s helper \<Rightarrow> dict \<Rightarrow> dict list \<Rightarrow> bool \<Rightarrow> 's \<Rightarrow> event list \<times> (failure + bool) \<times> 's" where
  "ensure_all api mp [] changed s = ([], Inr changed, s)"
| "ensure_all api mp (entity # rest) changed s =
     (case ensure_entity api ''media'' mp (Some entity) s of
        (Inl f, s1) \<Rightarrow> ([Ensure_entity ''media'' mp (Some entity)], Inl f, s1)
      | (Inr c, s1) \<Rightarrow>
          (case ensure_all api mp rest (changed \<or> c) s1 of
             (lg, r, s2) \<Rightarrow> (Ensure_entity ''media'' mp (Some entity) # lg, r, s2)))"

text \<open>Lines 140-145.\<close>

definition ensure ::
  "'s helper \<Rightarrow> bool \<Rightarrow> dict \<Rightarrow> dict list \<Rightarrow> dict option \<Rightarrow> bool \<Rightarrow> 's \<Rightarrow>
     event list \<times> (failure + bool) \<times> 's" where
  "ensure api affects_multiple mp entities entity changed s =
     (if \<not> affects_multiple then
        (case ensure_entity api ''media'' mp entity s of
           (Inl f, s1) \<Rightarrow> ([Ensure_entity ''media'' mp entity], Inl f, s1)
         | (Inr c, s1) \<Rightarrow> ([Ensure_entity ''media'' mp entity], Inr (changed \<or> c), s1))
      else
        (if has_key mp ''name'' then ensure_all api (AList.delete ''name'' mp) entities changed s
         else ([], Inl (Raised KeyError), s)))"

text \<open>
  \<open>main\<close> of the installation medium module. Everything happens inside the API
  connection; the \<open>changed\<close> flag starts false, and the end of the \<open>with\<close> block reports
  it.
\<close>

definition installation_medium_main ::
  "'s helper \<Rightarrow> state \<Rightarrow> dict \<Rightarrow> dict \<Rightarrow> 's \<Rightarrow> 's result" where
  "installation_medium_main api st params module_params s =
     (case api_connection api s of
        (Some f, s0) \<Rightarrow> \<lparr>log = [Api_connection], warnings = [], outcome = Failed f, remote = s0\<rparr>
      | (None, s0) \<Rightarrow>
          (case map_of module_params ''name'' of
             None \<Rightarrow>
               \<lparr>log = [Api_connection], warnings = [], outcome = Failed (Raised KeyError),
                remote = s0\<rparr>
           | Some name \<Rightarrow>
               (let affects_multiple = (name = VStr ''*'') in
                  (case (if affects_multiple then check_wildcard st params module_params
                         else None) of
                     Some f \<Rightarrow>
                       \<lparr>log = [Api_connection], warnings = [], outcome = Failed f, remote = s0\<rparr>
                   | None \<Rightarrow>
                       (case locate api st affects_multiple module_params False s0 of
                          (lg1, Inl out, s1) \<Rightarrow>
                            \<lparr>log = Api_connection # lg1, warnings = [], outcome = out,
                             remote = s1\<rparr>
                        | (lg1, Inr (entities, entity), s1) \<Rightarrow>
                            (case resolve api st affects_multiple module_params entity s1 of
                               (lg2, Inl f, s2) \<Rightarrow>
                                 \<lparr>log = Api_connection # lg1 @ lg2, warnings = [],
                                  outcome = Failed f, remote = s2\<rparr>
                             | (lg2, Inr mp, s2) \<Rightarrow>
                                 (case ensure api affects_multiple mp entities entity False s2 of
                                    (lg3, Inl f, s3) \<Rightarrow>
                                      \<lparr>log = Api_connection # lg1 @ lg2 @ lg3, warnings = [],
                                       outcome = Failed f, remote = s3\<rparr>
                                  | (lg3, Inr changed, s3) \<Rightarrow>
                                      \<lparr>log = Api_connection # lg1 @ lg2 @ lg3, warnings = [],
                                       outcome = Exit_json changed, remote = s3\<rparr>)))))))"

section \<open>Predicates of the specification and a sample service\<close>

text \<open>A parameter declared \<open>type='bool'\<close> in the argument specification is, when
  supplied, a boolean.\<close>

definition bool_typed :: "dict \<Rightarrow> string \<Rightarrow> bool" where
  "bool_typed d k =
     (case map_of d k of None \<Rightarrow> True | Some (VBool b) \<Rightarrow> True | Some _ \<Rightarrow> False)"

text \<open>A message enumerates a parameter name when the name is among the keys formatted
  into it or occurs in its text.\<close>

fun enumerates :: "message \<Rightarrow> string \<Rightarrow> bool" where
  "enumerates (Msg t) k = sublist k t"
| "enumerates (Msg_keys t ks) k = (k \<in> set ks \<or> sublist k t)"

text \<open>
  A concrete instance on which the theorems are run. \<open>ascii_lower\<close> is what
  \<open>str.lower()\<close> does on ASCII strings. In the helper the state counts the calls
  (\<open>ensure_puppetclasses\<close> adds ten), the collection of media is empty but for the
  medium \<open>wheezy\<close>, every operating system is of the family \<open>Debian\<close>, and a
  reconciled host has an environment.
\<close>

definition ascii_lower :: "string \<Rightarrow> string" where
  "ascii_lower s =
     map (\<lambda>c. let n = (of_char c :: nat) in if 65 \<le> n \<and> n \<le> 90 then char_of (n + 32) else c) s"

definition sample_helper :: "nat helper" where
  "sample_helper =
     \<lparr>api_connection = (\<lambda>s. (None, Suc s)),
      list_resource = (\<lambda>r s. (Inr [], Suc s)),
      show_resource = (\<lambda>r i s. (Inr [(''id'', i), (''family'', VStr ''Debian'')], Suc s)),
      find_resource_by_name = (\<lambda>r n s.
        (Inr (if n = VStr ''wheezy'' then Some [(''id'', VInt 7), (''name'', n)] else None),
         Suc s)),
      resolve_entities = (\<lambda>mp e s. (Inr (e, mp), Suc s)),
      ensure_entity = (\<lambda>r mp e s. (Inr True, Suc s)),
      auto_lookup_entities = (\<lambda>fp s. (Inr fp, Suc s)),
      run = (\<lambda>fp s. (Inr (Some [(''id'', VInt 1), (''environment_id'', VInt 2)]), Suc s)),
      ensure_puppetclasses = (\<lambda>fp e x s. (None, s + 10))\<rparr>"

section \<open>Dictionaries\<close>

lemma sublist_single: "sublist [c] s \<longleftrightarrow> c \<in> set s"
  by (induction s) (auto simp: sublist_Cons_right)

lemma map_of_update_other: "k' \<noteq> k \<Longrightarrow> map_of (AList.update k v d) k' = map_of d k'"
  by (simp add: update_conv')

lemma map_of_update_same: "map_of (AList.update k v d) k = Some v"
  by (simp add: update_conv')

lemma has_key_map_of: "has_key d k \<longleftrightarrow> map_of d k \<noteq> None"
  by (simp add: has_key_def map_of_eq_None_iff)

section \<open>The normalization of the host parameters\<close>

lemma couple_build_managed_other:
  "couple_build_managed fp = (fp1, ws) \<Longrightarrow> k \<noteq> ''build'' \<Longrightarrow> k \<noteq> ''managed'' \<Longrightarrow>
     map_of fp1 k = map_of fp k"
  by (auto simp: couple_build_managed_def map_of_update_other split: option.splits if_splits)

lemma couple_build_managed_has_key:
  "couple_build_managed fp = (fp1, ws) \<Longrightarrow> k \<noteq> ''build'' \<Longrightarrow> k \<noteq> ''managed'' \<Longrightarrow>
     has_key fp1 k = has_key fp k"
  by (simp add: has_key_map_of couple_build_managed_other)

lemma couple_build_true:
  assumes "map_of fp ''build'' = Some (VBool True)" and "couple_build_managed fp = (fp1, ws)"
  shows "map_of fp1 ''managed'' = Some (VBool True)"
    and "bool_typed fp ''managed'' \<Longrightarrow>
           managed_warning \<in> set ws \<longleftrightarrow> map_of fp ''managed'' = Some (VBool False)"
  using assms
  by (auto simp: couple_build_managed_def map_of_update_same map_of_update_other bool_typed_def
      split: option.splits pyval.splits if_splits)

lemma couple_build_absent:
  assumes "map_of fp ''build'' = None" and "map_of fp ''managed'' = Some (VBool False)"
    and "couple_build_managed fp = (fp1, ws)"
  shows "map_of fp1 ''build'' = Some (VBool False)"
  using assms by (auto simp: couple_build_managed_def map_of_update_same)

lemma lower_mac_other:
  "lower_mac str_lower fp = Inr fp2 \<Longrightarrow> k \<noteq> ''mac'' \<Longrightarrow> map_of fp2 k = map_of fp k"
  by (auto simp: lower_mac_def map_of_update_other split: option.splits pyval.splits)

lemma lower_mac_has_key: "lower_mac str_lower fp = Inr fp2 \<Longrightarrow> has_key fp2 k = has_key fp k"
  by (cases "k = ''mac''")
    (auto simp: lower_mac_def has_key_map_of update_conv' split: option.splits pyval.splits)

lemma derive_owner_type_other:
  "k \<noteq> ''owner_type'' \<Longrightarrow> map_of (derive_owner_type fp) k = map_of fp k"
  by (simp add: derive_owner_type_def map_of_update_other)

lemma derive_owner_type_value:
  "map_of (derive_owner_type fp) ''owner_type'' =
     (if has_key fp ''owner'' then Some (VStr ''User'')
      else if has_key fp ''owner_group'' then Some (VStr ''Usergroup'')
      else map_of fp ''owner_type'')"
  by (simp add: derive_owner_type_def map_of_update_same)

lemma prune_nic_truthy: "kv \<in> set (prune_nic obj) \<Longrightarrow> truthy (snd kv)"
  by (simp add: prune_nic_def)

lemma prune_nic_falsy: "\<not> truthy v \<Longrightarrow> prune_nic (xs @ (k, v) # ys) = prune_nic (xs @ ys)"
  by (simp add: prune_nic_def)

lemma prune_nics_dicts: "prune_nics (map VDict ds) = Inr (map prune_nic ds)"
  by (induction ds) simp_all

lemma filter_interfaces_other:
  "filter_interfaces fp = Inr fp' \<Longrightarrow> k \<noteq> ''interfaces_attributes'' \<Longrightarrow>
     map_of fp' k = map_of fp k"
  by (auto simp: filter_interfaces_def map_of_update_other split: option.splits sum.splits)

lemma filter_interfaces_list:
  assumes "map_of fp ''interfaces_attributes'' = Some (VList (map VDict ds))"
    and "filter_interfaces fp = Inr fp'"
  shows "map_of fp' ''interfaces_attributes'' =
           Some (VList (map VDict (filter (\<lambda>nic. nic \<noteq> []) (map prune_nic ds))))"
  using assms by (auto simp: filter_interfaces_def prune_nics_dicts map_of_update_same)

lemma normalize_params_steps:
  assumes "\<not> desired_absent st" and "normalize_params str_lower st fp = (ws, Inr fp')"
  obtains fp1 fp2 where "couple_build_managed fp = (fp1, ws)" and "lower_mac str_lower fp1 = Inr fp2"
    and "filter_interfaces (derive_owner_type fp2) = Inr fp'"
  using assms by (auto simp: normalize_params_def split: prod.splits sum.splits)

lemma host_main_connected:
  assumes "\<not> (has_key supplied ''owner'' \<and> has_key supplied ''owner_group'')"
    and "check_hostname supplied = None"
    and "normalize_params str_lower st supplied = (ws, Inr fp')"
  shows "host_main api str_lower st supplied s = host_connected api st fp' ws s"
  using assms by (auto simp: host_main_def ForemanHostModule_def)

lemma host_connected_warnings: "warnings (host_connected api st fp ws s) = ws"
  by (auto simp: host_connected_def Let_def split: prod.splits sum.splits option.splits)

lemma host_connected_log: "Api_connection \<in> set (log (host_connected api st fp ws s))"
  by (auto simp: host_connected_def Let_def split: prod.splits sum.splits option.splits)

section \<open>The claims about the host module\<close>

text \<open>
  Claim C2. For a host whose desired state is not absent, in the normalized parameters:
  when \<open>build\<close> is supplied as true, \<open>managed\<close> is true whatever was supplied for it,
  and the warning is emitted exactly when \<open>managed\<close> was supplied as false; when
  \<open>build\<close> is not supplied and \<open>managed\<close> is supplied as false, \<open>build\<close> is an
  explicit false. The warning is not fatal: the normalization goes on to its result.
\<close>

theorem host_build_managed_coupling:
  assumes "\<not> desired_absent st"
    and "normalize_params str_lower st fp = (ws, Inr fp')"
    and "bool_typed fp ''managed''"
  shows "(map_of fp ''build'' = Some (VBool True) \<longrightarrow>
            map_of fp' ''managed'' = Some (VBool True) \<and>
            (managed_warning \<in> set ws \<longleftrightarrow> map_of fp ''managed'' = Some (VBool False)))
       \<and> (map_of fp ''build'' = None \<and> map_of fp ''managed'' = Some (VBool False) \<longrightarrow>
            map_of fp' ''build'' = Some (VBool False))
       \<and> (\<not> (has_key fp ''owner'' \<and> has_key fp ''owner_group'') \<and> check_hostname fp = None \<longrightarrow>
            warnings (host_main api str_lower st fp s) = ws \<and>
            Api_connection \<in> set (log (host_main api str_lower st fp s)))"
proof -
  from assms(1,2) obtain fp1 fp2 where c: "couple_build_managed fp = (fp1, ws)"
    and m: "lower_mac str_lower fp1 = Inr fp2"
    and i: "filter_interfaces (derive_owner_type fp2) = Inr fp'"
    by (rule normalize_params_steps)
  have keep: "map_of fp' k = map_of fp1 k" if "k = ''build'' \<or> k = ''managed''" for k
    using that filter_interfaces_other [OF i, of k] derive_owner_type_other [of k fp2]
      lower_mac_other [OF m, of k] by auto
  have go: "\<not> (has_key fp ''owner'' \<and> has_key fp ''owner_group'') \<and> check_hostname fp = None \<longrightarrow>
            warnings (host_main api str_lower st fp s) = ws \<and>
            Api_connection \<in> set (log (host_main api str_lower st fp s))"
    using host_main_connected [OF _ _ assms(2), of api s]
    by (simp add: host_connected_warnings host_connected_log)
  show ?thesis
    using couple_build_true [OF _ c] couple_build_absent [OF _ _ c] assms(3) keep go by auto
qed

theorem host_build_managed_coupling_witness:
  "normalize_params ascii_lower Present
     [(''name'', VStr ''web1.example.com''), (''build'', VBool True), (''managed'', VBool False)] =
     ([managed_warning],
      Inr [(''name'', VStr ''web1.example.com''), (''build'', VBool True), (''managed'', VBool True)])
   \<and> map_of [(''name'', VStr ''web1.example.com''), (''build'', VBool True), (''managed'', VBool True)]
       ''managed'' = Some (VBool True)
   \<and> managed_warning \<in> set [managed_warning]
   \<and> warnings (host_main sample_helper ascii_lower Present
       [(''name'', VStr ''web1.example.com''), (''build'', VBool True), (''managed'', VBool False)] 0)
       = [managed_warning]
   \<and> normalize_params ascii_lower Present [(''name'', VStr ''web1.example.com''), (''managed'', VBool False)] =
     ([], Inr [(''name'', VStr ''web1.example.com''), (''managed'', VBool False),
               (''build'', VBool False)])
   \<and> map_of [(''name'', VStr ''web1.example.com''), (''managed'', VBool False),
             (''build'', VBool False)] ''build'' = Some (VBool False)"
proof -
  have p: "\<not> desired_absent Present"
    by (simp add: desired_absent_def)
  have a: "normalize_params ascii_lower Present
     [(''name'', VStr ''web1.example.com''), (''build'', VBool True), (''managed'', VBool False)] =
     ([managed_warning],
      Inr [(''name'', VStr ''web1.example.com''), (''build'', VBool True), (''managed'', VBool True)])"
    by (simp add: normalize_params_def desired_absent_def couple_build_managed_def lower_mac_def
        derive_owner_type_def has_key_def filter_interfaces_def)
  have ta: "bool_typed
     [(''name'', VStr ''web1.example.com''), (''build'', VBool True), (''managed'', VBool False)]
     ''managed''"
    by (simp add: bool_typed_def)
  have b: "normalize_params ascii_lower Present [(''name'', VStr ''web1.example.com''), (''managed'', VBool False)] =
     ([], Inr [(''name'', VStr ''web1.example.com''), (''managed'', VBool False),
               (''build'', VBool False)])"
    by (simp add: normalize_params_def desired_absent_def couple_build_managed_def lower_mac_def
        derive_owner_type_def has_key_def filter_interfaces_def)
  have tb: "bool_typed [(''name'', VStr ''web1.example.com''), (''managed'', VBool False)] ''managed''"
    by (simp add: bool_typed_def)
  have o: "\<not> (has_key [(''name'', VStr ''web1.example.com''), (''build'', VBool True),
                      (''managed'', VBool False)] ''owner'' \<and>
              has_key [(''name'', VStr ''web1.example.com''), (''build'', VBool True),
                       (''managed'', VBool False)] ''owner_group'')"
    by (simp add: has_key_def)
  have h: "check_hostname [(''name'', VStr ''web1.example.com''), (''build'', VBool True),
                           (''managed'', VBool False)] = None"
    by (simp add: check_hostname_def sublist_single)
  show ?thesis
    using a b o h host_build_managed_coupling [OF p a ta, of sample_helper 0]
      host_build_managed_coupling [OF p b tb, of sample_helper 0]
    by simp
qed

text \<open>
  Claim C4. For a host whose desired state is not absent and that supplies
  \<open>interfaces_attributes\<close> (a list of dictionaries), the normalized parameters hold, for
  every interface, the interface without its keys of falsy value (the empty string, the
  empty list, false, zero, \<open>None\<close>), so that a key with such a value and a key never set
  give the same record; and the part of \<open>main\<close> that talks to the remote service runs on
  these normalized parameters.
\<close>

theorem host_interfaces_pruned:
  assumes "\<not> desired_absent st"
    and "map_of fp ''interfaces_attributes'' = Some (VList (map VDict ds))"
    and "normalize_params str_lower st fp = (ws, Inr fp')"
  shows "map_of fp' ''interfaces_attributes'' =
           Some (VList (map VDict (filter (\<lambda>nic. nic \<noteq> []) (map prune_nic ds))))
       \<and> (\<forall>nic \<in> set (map prune_nic ds). \<forall>kv \<in> set nic. truthy (snd kv))
       \<and> (\<forall>xs k v ys. \<not> truthy v \<longrightarrow> prune_nic (xs @ (k, v) # ys) = prune_nic (xs @ ys))
       \<and> \<not> truthy (VStr []) \<and> \<not> truthy (VList []) \<and> \<not> truthy (VBool False)
       \<and> \<not> truthy (VInt 0) \<and> \<not> truthy VNone
       \<and> (\<not> (has_key fp ''owner'' \<and> has_key fp ''owner_group'') \<and> check_hostname fp = None \<longrightarrow>
            host_main api str_lower st fp s = host_connected api st fp' ws s)"
proof -
  from assms(1,3) obtain fp1 fp2 where c: "couple_build_managed fp = (fp1, ws)"
    and m: "lower_mac str_lower fp1 = Inr fp2"
    and i: "filter_interfaces (derive_owner_type fp2) = Inr fp'"
    by (rule normalize_params_steps)
  have "map_of (derive_owner_type fp2) ''interfaces_attributes'' = Some (VList (map VDict ds))"
    using assms(2) couple_build_managed_other [OF c, of "''interfaces_attributes''"]
      lower_mac_other [OF m, of "''interfaces_attributes''"]
      derive_owner_type_other [of "''interfaces_attributes''" fp2] by simp
  then have 1: "map_of fp' ''interfaces_attributes'' =
           Some (VList (map VDict (filter (\<lambda>nic. nic \<noteq> []) (map prune_nic ds))))"
    using i by (rule filter_interfaces_list)
  have 2: "\<forall>nic \<in> set (map prune_nic ds). \<forall>kv \<in> set nic. truthy (snd kv)"
    by (auto dest: prune_nic_truthy)
  have 3: "\<forall>xs k v ys. \<not> truthy v \<longrightarrow> prune_nic (xs @ (k, v) # ys) = prune_nic (xs @ ys)"
    by (simp add: prune_nic_falsy)
  have 4: "\<not> (has_key fp ''owner'' \<and> has_key fp ''owner_group'') \<and> check_hostname fp = None \<longrightarrow>
            host_main api str_lower st fp s = host_connected api st fp' ws s"
    using host_main_connected [OF _ _ assms(3), of api s] by simp
  show ?thesis
    using 1 2 3 4 by simp
qed

theorem host_interfaces_pruned_witness:
  "map_of [(''name'', VStr ''web1.example.com''),
           (''interfaces_attributes'', VList [VDict [(''mac'', VStr ''aa:bb'')]])]
     ''interfaces_attributes'' = Some (VList [VDict [(''mac'', VStr ''aa:bb'')]])
   \<and> prune_nic [(''mac'', VStr ''aa:bb''), (''ip'', VStr []), (''mtu'', VInt 0)] =
       prune_nic [(''mac'', VStr ''aa:bb''), (''mtu'', VInt 0)]
   \<and> host_main sample_helper ascii_lower Present
       [(''name'', VStr ''web1.example.com''),
        (''interfaces_attributes'',
         VList [VDict [(''mac'', VStr ''aa:bb''), (''ip'', VStr []), (''mtu'', VInt 0)],
                VDict [(''ip'', VNone)]])] 0 =
     host_connected sample_helper Present
       [(''name'', VStr ''web1.example.com''),
        (''interfaces_attributes'', VList [VDict [(''mac'', VStr ''aa:bb'')]])] [] 0"
proof -
  let ?fp = "[(''name'', VStr ''web1.example.com''),
        (''interfaces_attributes'',
         VList (map VDict [[(''mac'', VStr ''aa:bb''), (''ip'', VStr []), (''mtu'', VInt 0)],
                [(''ip'', VNone)]]))]"
  let ?fp' = "[(''name'', VStr ''web1.example.com''),
        (''interfaces_attributes'', VList [VDict [(''mac'', VStr ''aa:bb'')]])]"
  have p: "\<not> desired_absent Present"
    by (simp add: desired_absent_def)
  have l: "map_of ?fp ''interfaces_attributes'' =
      Some (VList (map VDict [[(''mac'', VStr ''aa:bb''), (''ip'', VStr []), (''mtu'', VInt 0)],
                [(''ip'', VNone)]]))"
    by simp
  have n: "normalize_params ascii_lower Present ?fp = ([], Inr ?fp')"
    by (simp add: normalize_params_def desired_absent_def couple_build_managed_def lower_mac_def
        derive_owner_type_def has_key_def filter_interfaces_def prune_nic_def)
  have o: "\<not> (has_key ?fp ''owner'' \<and> has_key ?fp ''owner_group'')"
    by (simp add: has_key_def)
  have h: "check_hostname ?fp = None"
    by (simp add: check_hostname_def sublist_single)
  have f: "\<not> truthy (VStr [])"
    by simp
  from host_interfaces_pruned [OF p l n, of sample_helper 0] o h f
  show ?thesis
    by (simp add: prune_nic_def)
qed

text \<open>
  Claim C7. A host invocation that supplies both \<open>owner\<close> and \<open>owner_group\<close> fails
  validation, whatever the state and the other parameters are, before anything is sent;
  and for a desired state that is not absent, the normalized parameters of an invocation
  that supplies exactly one of the two hold \<open>owner_type = 'User'\<close> when it is
  \<open>owner\<close> and \<open>owner_type = 'Usergroup'\<close> when it is \<open>owner_group\<close>.
\<close>

theorem host_owner_exclusive:
  "(has_key supplied ''owner'' \<and> has_key supplied ''owner_group'' \<longrightarrow>
      outcome (host_main api str_lower st supplied s) =
        Failed (Fail_json (Msg ''parameters are mutually exclusive: owner|owner_group'')) \<and>
      log (host_main api str_lower st supplied s) = [])
   \<and> (\<not> desired_absent st \<and> normalize_params str_lower st fp = (ws, Inr fp') \<longrightarrow>
        (has_key fp ''owner'' \<and> \<not> has_key fp ''owner_group'' \<longrightarrow>
           map_of fp' ''owner_type'' = Some (VStr ''User'')) \<and>
        (has_key fp ''owner_group'' \<and> \<not> has_key fp ''owner'' \<longrightarrow>
           map_of fp' ''owner_type'' = Some (VStr ''Usergroup'')))"
proof -
  have 1: "has_key supplied ''owner'' \<and> has_key supplied ''owner_group'' \<longrightarrow>
      outcome (host_main api str_lower st supplied s) =
        Failed (Fail_json (Msg ''parameters are mutually exclusive: owner|owner_group'')) \<and>
      log (host_main api str_lower st supplied s) = []"
    by (simp add: host_main_def ForemanHostModule_def)
  have 2: "\<not> desired_absent st \<and> normalize_params str_lower st fp = (ws, Inr fp') \<longrightarrow>
        (has_key fp ''owner'' \<and> \<not> has_key fp ''owner_group'' \<longrightarrow>
           map_of fp' ''owner_type'' = Some (VStr ''User'')) \<and>
        (has_key fp ''owner_group'' \<and> \<not> has_key fp ''owner'' \<longrightarrow>
           map_of fp' ''owner_type'' = Some (VStr ''Usergroup''))"
  proof
    assume a: "\<not> desired_absent st \<and> normalize_params str_lower st fp = (ws, Inr fp')"
    then obtain fp1 fp2 where c: "couple_build_managed fp = (fp1, ws)"
      and m: "lower_mac str_lower fp1 = Inr fp2"
      and i: "filter_interfaces (derive_owner_type fp2) = Inr fp'"
      by (blast elim: normalize_params_steps)
    have k: "has_key fp2 k = has_key fp k" if "k = ''owner'' \<or> k = ''owner_group''" for k
      using that lower_mac_has_key [OF m, of k] couple_build_managed_has_key [OF c, of k] by auto
    have "map_of fp' ''owner_type'' = map_of (derive_owner_type fp2) ''owner_type''"
      using filter_interfaces_other [OF i, of "''owner_type''"] by simp
    then show "(has_key fp ''owner'' \<and> \<not> has_key fp ''owner_group'' \<longrightarrow>
              map_of fp' ''owner_type'' = Some (VStr ''User'')) \<and>
           (has_key fp ''owner_group'' \<and> \<not> has_key fp ''owner'' \<longrightarrow>
              map_of fp' ''owner_type'' = Some (VStr ''Usergroup''))"
      using k by (simp add: derive_owner_type_value)
  qed
  from 1 2 show ?thesis by (rule conjI)
qed

theorem host_owner_exclusive_witness:
  "outcome (host_main sample_helper ascii_lower Present
      [(''name'', VStr ''web1.example.com''), (''owner'', VStr ''admin''),
       (''owner_group'', VStr ''ops'')] 0) =
     Failed (Fail_json (Msg ''parameters are mutually exclusive: owner|owner_group''))
   \<and> log (host_main sample_helper ascii_lower Present
      [(''name'', VStr ''web1.example.com''), (''owner'', VStr ''admin''),
       (''owner_group'', VStr ''ops'')] 0) = []
   \<and> normalize_params ascii_lower Present [(''name'', VStr ''web1.example.com''), (''owner'', VStr ''admin'')] =
       ([], Inr [(''name'', VStr ''web1.example.com''), (''owner'', VStr ''admin''),
                 (''owner_type'', VStr ''User'')])
   \<and> map_of [(''name'', VStr ''web1.example.com''), (''owner'', VStr ''admin''),
             (''owner_type'', VStr ''User'')] ''owner_type'' = Some (VStr ''User'')
   \<and> normalize_params ascii_lower Present
       [(''name'', VStr ''web1.example.com''), (''owner_group'', VStr ''ops'')] =
       ([], Inr [(''name'', VStr ''web1.example.com''), (''owner_group'', VStr ''ops''),
                 (''owner_type'', VStr ''Usergroup'')])
   \<and> map_of [(''name'', VStr ''web1.example.com''), (''owner_group'', VStr ''ops''),
             (''owner_type'', VStr ''Usergroup'')] ''owner_type'' = Some (VStr ''Usergroup'')"
proof -
  let ?both = "[(''name'', VStr ''web1.example.com''), (''owner'', VStr ''admin''),
       (''owner_group'', VStr ''ops'')]"
  let ?user = "[(''name'', VStr ''web1.example.com''), (''owner'', VStr ''admin'')]"
  let ?group = "[(''name'', VStr ''web1.example.com''), (''owner_group'', VStr ''ops'')]"
  have b: "has_key ?both ''owner'' \<and> has_key ?both ''owner_group''"
    by (simp add: has_key_def)
  have p: "\<not> desired_absent Present"
    by (simp add: desired_absent_def)
  have u: "normalize_params ascii_lower Present ?user =
       ([], Inr [(''name'', VStr ''web1.example.com''), (''owner'', VStr ''admin''),
                 (''owner_type'', VStr ''User'')])"
    by (simp add: normalize_params_def desired_absent_def couple_build_managed_def lower_mac_def
        derive_owner_type_def has_key_def filter_interfaces_def)
  have g: "normalize_params ascii_lower Present ?group =
       ([], Inr [(''name'', VStr ''web1.example.com''), (''owner_group'', VStr ''ops''),
                 (''owner_type'', VStr ''Usergroup'')])"
    by (simp add: normalize_params_def desired_absent_def couple_build_managed_def lower_mac_def
        derive_owner_type_def has_key_def filter_interfaces_def)
  have ku: "has_key ?user ''owner'' \<and> \<not> has_key ?user ''owner_group''"
    by (simp add: has_key_def)
  have kg: "has_key ?group ''owner_group'' \<and> \<not> has_key ?group ''owner''"
    by (simp add: has_key_def)
  from host_owner_exclusive [of ?both sample_helper ascii_lower Present 0 ?user]
    host_owner_exclusive [of ?both sample_helper ascii_lower Present 0 ?group] b p u g ku kg
  show ?thesis
    by simp
qed

text \<open>
  Claim C8. In a host invocation, \<open>ensure_puppetclasses\<close> is called if and only if the
  desired state is not absent, \<open>module.run\<close> was called and returned an entity, and
  that entity has the key \<open>environment_id\<close>; in particular it is never called when
  the desired state is absent. The call is the helper's own: once \<open>module.run\<close> has
  been reached, the result of \<open>main\<close> is determined by what \<open>run\<close> returned, and
  when the three conditions hold the final remote state and the outcome are those of
  \<open>ensure_puppetclasses\<close> applied to the entity and the popped \<open>puppetclasses\<close>;
  in every other case the remote state is the one left by the last step reached, with
  \<open>ensure_puppetclasses\<close> not applied.
\<close>

theorem host_puppetclasses_hook:
  "((\<exists>e x. Ensure_puppetclasses ''host'' e x \<in> set (log (host_main api str_lower st supplied s)))
      \<longleftrightarrow>
    (\<not> desired_absent st \<and>
     (\<exists>fp e. Run fp (Inr (Some e)) \<in> set (log (host_main api str_lower st supplied s)) \<and>
        has_key e ''environment_id'')))
   \<and> (\<not> (has_key supplied ''owner'' \<and> has_key supplied ''owner_group'') \<and>
      check_hostname supplied = None \<and>
      normalize_params str_lower st supplied = (ws, Inr fp) \<and>
      api_connection api s = (None, s1) \<and>
      (if \<not> desired_absent st then auto_lookup_entities api fp s1 else (Inr fp, s1)) =
        (Inr fp2, s2) \<and>
      run api (AList.delete ''puppetclasses'' fp2) s2 = (r, s3) \<longrightarrow>
        host_main api str_lower st supplied s =
          (case r of
             Inl f \<Rightarrow>
               \<lparr>log = Api_connection #
                  (if \<not> desired_absent st then [Auto_lookup_entities fp] else []) @
                  [Run (AList.delete ''puppetclasses'' fp2) r],
                warnings = ws, outcome = Failed f, remote = s3\<rparr>
           | Inr None \<Rightarrow>
               \<lparr>log = Api_connection #
                  (if \<not> desired_absent st then [Auto_lookup_entities fp] else []) @
                  [Run (AList.delete ''puppetclasses'' fp2) r],
                warnings = ws,
                outcome = (if \<not> desired_absent st then Failed (Raised TypeError) else Returned),
                remote = s3\<rparr>
           | Inr (Some e) \<Rightarrow>
               if \<not> desired_absent st \<and> has_key e ''environment_id'' then
                 \<lparr>log = Api_connection #
                    (if \<not> desired_absent st then [Auto_lookup_entities fp] else []) @
                    [Run (AList.delete ''puppetclasses'' fp2) r,
                     Ensure_puppetclasses ''host'' e
                       (case map_of fp2 ''puppetclasses'' of None \<Rightarrow> VNone | Some v \<Rightarrow> v)],
                  warnings = ws,
                  outcome =
                    (case fst (ensure_puppetclasses api (AList.delete ''puppetclasses'' fp2) e
                                 (case map_of fp2 ''puppetclasses'' of None \<Rightarrow> VNone | Some v \<Rightarrow> v)
                                 s3) of
                       Some f \<Rightarrow> Failed f
                     | None \<Rightarrow> Returned),
                  remote =
                    snd (ensure_puppetclasses api (AList.delete ''puppetclasses'' fp2) e
                           (case map_of fp2 ''puppetclasses'' of None \<Rightarrow> VNone | Some v \<Rightarrow> v)
                           s3)\<rparr>
               else
                 \<lparr>log = Api_connection #
                    (if \<not> desired_absent st then [Auto_lookup_entities fp] else []) @
                    [Run (AList.delete ''puppetclasses'' fp2) r],
                  warnings = ws, outcome = Returned, remote = s3\<rparr>))
   \<and> (\<not> (has_key supplied ''owner'' \<and> has_key supplied ''owner_group'') \<and>
      check_hostname supplied = None \<and>
      normalize_params str_lower st supplied = (ws, Inr fp) \<and>
      api_connection api s = (None, s1) \<and> \<not> desired_absent st \<and>
      auto_lookup_entities api fp s1 = (Inl f2, s2) \<longrightarrow>
        host_main api str_lower st supplied s =
          \<lparr>log = [Api_connection, Auto_lookup_entities fp], warnings = ws,
           outcome = Failed f2, remote = s2\<rparr>)
   \<and> (\<not> (has_key supplied ''owner'' \<and> has_key supplied ''owner_group'') \<and>
      check_hostname supplied = None \<and>
      normalize_params str_lower st supplied = (ws, Inr fp) \<and>
      api_connection api s = (Some f1, s1) \<longrightarrow>
        host_main api str_lower st supplied s =
          \<lparr>log = [Api_connection], warnings = ws, outcome = Failed f1, remote = s1\<rparr>)
   \<and> ((has_key supplied ''owner'' \<and> has_key supplied ''owner_group'') \<or>
      check_hostname supplied \<noteq> None \<or>
      snd (normalize_params str_lower st supplied) = Inl f0 \<longrightarrow>
        log (host_main api str_lower st supplied s) = [] \<and>
        remote (host_main api str_lower st supplied s) = s)"
proof -
  have hook: "(\<exists>e x. Ensure_puppetclasses ''host'' e x \<in> set (log (host_main api str_lower st supplied s)))
      \<longleftrightarrow>
    (\<not> desired_absent st \<and>
     (\<exists>fp e. Run fp (Inr (Some e)) \<in> set (log (host_main api str_lower st supplied s)) \<and>
        has_key e ''environment_id''))"
    by (auto simp: host_main_def host_connected_def Let_def
        split: sum.splits option.splits prod.splits if_splits)
  have ran: "host_main api str_lower st supplied s =
          (case r of
             Inl f \<Rightarrow>
               \<lparr>log = Api_connection #
                  (if \<not> desired_absent st then [Auto_lookup_entities fp] else []) @
                  [Run (AList.delete ''puppetclasses'' fp2) r],
                warnings = ws, outcome = Failed f, remote = s3\<rparr>
           | Inr None \<Rightarrow>
               \<lparr>log = Api_connection #
                  (if \<not> desired_absent st then [Auto_lookup_entities fp] else []) @
                  [Run (AList.delete ''puppetclasses'' fp2) r],
                warnings = ws,
                outcome = (if \<not> desired_absent st then Failed (Raised TypeError) else Returned),
                remote = s3\<rparr>
           | Inr (Some e) \<Rightarrow>
               if \<not> desired_absent st \<and> has_key e ''environment_id'' then
                 \<lparr>log = Api_connection #
                    (if \<not> desired_absent st then [Auto_lookup_entities fp] else []) @
                    [Run (AList.delete ''puppetclasses'' fp2) r,
                     Ensure_puppetclasses ''host'' e
                       (case map_of fp2 ''puppetclasses'' of None \<Rightarrow> VNone | Some v \<Rightarrow> v)],
                  warnings = ws,
                  outcome =
                    (case fst (ensure_puppetclasses api (AList.delete ''puppetclasses'' fp2) e
                                 (case map_of fp2 ''puppetclasses'' of None \<Rightarrow> VNone | Some v \<Rightarrow> v)
                                 s3) of
                       Some f \<Rightarrow> Failed f
                     | None \<Rightarrow> Returned),
                  remote =
                    snd (ensure_puppetclasses api (AList.delete ''puppetclasses'' fp2) e
                           (case map_of fp2 ''puppetclasses'' of None \<Rightarrow> VNone | Some v \<Rightarrow> v)
                           s3)\<rparr>
               else
                 \<lparr>log = Api_connection #
                    (if \<not> desired_absent st then [Auto_lookup_entities fp] else []) @
                    [Run (AList.delete ''puppetclasses'' fp2) r],
                  warnings = ws, outcome = Returned, remote = s3\<rparr>)"
    if "\<not> (has_key supplied ''owner'' \<and> has_key supplied ''owner_group'')"
      and "check_hostname supplied = None"
      and "normalize_params str_lower st supplied = (ws, Inr fp)"
      and "api_connection api s = (None, s1)"
      and "(if \<not> desired_absent st then auto_lookup_entities api fp s1 else (Inr fp, s1)) =
        (Inr fp2, s2)"
      and "run api (AList.delete ''puppetclasses'' fp2) s2 = (r, s3)"
  proof -
    have "host_main api str_lower st supplied s = host_connected api st fp ws s"
      using that(1-3) by (rule host_main_connected)
    then show ?thesis
      using that(4-6)
      by (auto simp: host_connected_def Let_def split: sum.splits option.splits prod.splits)
  qed
  have looked: "host_main api str_lower st supplied s =
          \<lparr>log = [Api_connection, Auto_lookup_entities fp], warnings = ws,
           outcome = Failed f2, remote = s2\<rparr>"
    if "\<not> (has_key supplied ''owner'' \<and> has_key supplied ''owner_group'')"
      and "check_hostname supplied = None"
      and "normalize_params str_lower st supplied = (ws, Inr fp)"
      and "api_connection api s = (None, s1)" and "\<not> desired_absent st"
      and "auto_lookup_entities api fp s1 = (Inl f2, s2)"
  proof -
    have "host_main api str_lower st supplied s = host_connected api st fp ws s"
      using that(1-3) by (rule host_main_connected)
    then show ?thesis
      using that(4-6) by (simp add: host_connected_def)
  qed
  have down: "host_main api str_lower st supplied s =
          \<lparr>log = [Api_connection], warnings = ws, outcome = Failed f1, remote = s1\<rparr>"
    if "\<not> (has_key supplied ''owner'' \<and> has_key supplied ''owner_group'')"
      and "check_hostname supplied = None"
      and "normalize_params str_lower st supplied = (ws, Inr fp)"
      and "api_connection api s = (Some f1, s1)"
  proof -
    have "host_main api str_lower st supplied s = host_connected api st fp ws s"
      using that(1-3) by (rule host_main_connected)
    then show ?thesis
      using that(4) by (simp add: host_connected_def)
  qed
  have early: "log (host_main api str_lower st supplied s) = [] \<and>
        remote (host_main api str_lower st supplied s) = s"
    if "(has_key supplied ''owner'' \<and> has_key supplied ''owner_group'') \<or>
      check_hostname supplied \<noteq> None \<or>
      snd (normalize_params str_lower st supplied) = Inl f0"
    using that
    by (auto simp: host_main_def ForemanHostModule_def split: option.splits prod.splits sum.splits)
  from hook ran looked down early show ?thesis
    by blast
qed

theorem host_puppetclasses_hook_witness:
  "host_main sample_helper ascii_lower Present
     [(''name'', VStr ''web1.example.com''), (''puppetclasses'', VList [VStr ''ntp''])] 0 =
     \<lparr>log = [Api_connection,
             Auto_lookup_entities
               [(''name'', VStr ''web1.example.com''), (''puppetclasses'', VList [VStr ''ntp''])],
             Run [(''name'', VStr ''web1.example.com'')]
               (Inr (Some [(''id'', VInt 1), (''environment_id'', VInt 2)])),
             Ensure_puppetclasses ''host'' [(''id'', VInt 1), (''environment_id'', VInt 2)]
               (VList [VStr ''ntp''])],
      warnings = [], outcome = Returned, remote = 13\<rparr>
   \<and> host_main sample_helper ascii_lower Absent
     [(''name'', VStr ''web1.example.com''), (''puppetclasses'', VList [VStr ''ntp''])] 0 =
     \<lparr>log = [Api_connection,
             Run [(''name'', VStr ''web1.example.com'')]
               (Inr (Some [(''id'', VInt 1), (''environment_id'', VInt 2)]))],
      warnings = [], outcome = Returned, remote = 2\<rparr>
   \<and> (\<exists>e x. Ensure_puppetclasses ''host'' e x \<in>
        set (log (host_main sample_helper ascii_lower Present
          [(''name'', VStr ''web1.example.com''), (''puppetclasses'', VList [VStr ''ntp''])] 0)))"
proof -
  let ?fp = "[(''name'', VStr ''web1.example.com''), (''puppetclasses'', VList [VStr ''ntp''])]"
  let ?e = "[(''id'', VInt 1), (''environment_id'', VInt 2)]"
  have o: "\<not> (has_key ?fp ''owner'' \<and> has_key ?fp ''owner_group'')"
    by (simp add: has_key_def)
  have h: "check_hostname ?fp = None"
    by (simp add: check_hostname_def sublist_single)
  have np: "normalize_params ascii_lower Present ?fp = ([], Inr ?fp)"
    by (simp add: normalize_params_def desired_absent_def couple_build_managed_def lower_mac_def
        derive_owner_type_def has_key_def filter_interfaces_def)
  have na: "normalize_params ascii_lower Absent ?fp = ([], Inr ?fp)"
    by (simp add: normalize_params_def desired_absent_def)
  have c: "api_connection sample_helper 0 = (None, 1)"
    by (simp add: sample_helper_def)
  have lp: "(if \<not> desired_absent Present then auto_lookup_entities sample_helper ?fp 1
             else (Inr ?fp, 1)) = (Inr ?fp, 2)"
    by (simp add: sample_helper_def desired_absent_def)
  have la: "(if \<not> desired_absent Absent then auto_lookup_entities sample_helper ?fp 1
             else (Inr ?fp, 1)) = (Inr ?fp, 1)"
    by (simp add: desired_absent_def)
  have rp: "run sample_helper (AList.delete ''puppetclasses'' ?fp) 2 = (Inr (Some ?e), 3)"
    by (simp add: sample_helper_def)
  have ra: "run sample_helper (AList.delete ''puppetclasses'' ?fp) 1 = (Inr (Some ?e), 2)"
    by (simp add: sample_helper_def)
  have k: "has_key ?e ''environment_id''"
    by (simp add: has_key_def)
  have d: "\<not> desired_absent Present" "desired_absent Absent"
    by (simp_all add: desired_absent_def)
  have e: "ensure_puppetclasses sample_helper (AList.delete ''puppetclasses'' ?fp) ?e
             (VList [VStr ''ntp'']) 3 = (None, 13)"
    by (simp add: sample_helper_def)
  have dl: "AList.delete ''puppetclasses'' ?fp = [(''name'', VStr ''web1.example.com'')]"
    by (simp add: AList.delete_eq)
  have p: "host_main sample_helper ascii_lower Present ?fp 0 =
     \<lparr>log = [Api_connection, Auto_lookup_entities ?fp,
             Run [(''name'', VStr ''web1.example.com'')] (Inr (Some ?e)),
             Ensure_puppetclasses ''host'' ?e (VList [VStr ''ntp''])],
      warnings = [], outcome = Returned, remote = 13\<rparr>"
    using host_puppetclasses_hook [where api = sample_helper and str_lower = ascii_lower
        and st = Present and supplied = ?fp and s = 0 and ws = "[]" and fp = ?fp and ?s1.0 = 1
        and ?fp2.0 = ?fp and ?s2.0 = 2 and r = "Inr (Some ?e)" and ?s3.0 = 3]
      o h np c lp rp k d e dl
    by simp
  have a: "host_main sample_helper ascii_lower Absent ?fp 0 =
     \<lparr>log = [Api_connection, Run [(''name'', VStr ''web1.example.com'')] (Inr (Some ?e))],
      warnings = [], outcome = Returned, remote = 2\<rparr>"
    using host_puppetclasses_hook [where api = sample_helper and str_lower = ascii_lower
        and st = Absent and supplied = ?fp and s = 0 and ws = "[]" and fp = ?fp and ?s1.0 = 1
        and ?fp2.0 = ?fp and ?s2.0 = 1 and r = "Inr (Some ?e)" and ?s3.0 = 2]
      o h na c la ra d dl
    by simp
  from p a show ?thesis
    by simp
qed

text \<open>
  Claim C9, as amended. A host invocation that passes the validation of the constructor
  (it does not supply both \<open>owner\<close> and \<open>owner_group\<close>) and whose name contains no dot
  fails with the message "The hostname must be FQDN", whatever the desired state is,
  before the API connection is acquired and before any remote call.
\<close>

theorem host_name_must_be_fqdn:
  assumes "\<not> (has_key supplied ''owner'' \<and> has_key supplied ''owner_group'')"
    and "map_of supplied ''name'' = Some (VStr n)"
    and "CHR ''.'' \<notin> set n"
  shows "outcome (host_main api str_lower st supplied s) =
           Failed (Fail_json (Msg ''The hostname must be FQDN''))
       \<and> log (host_main api str_lower st supplied s) = []"
  using assms
  by (auto simp: host_main_def ForemanHostModule_def check_hostname_def sublist_single)

theorem host_name_must_be_fqdn_witness:
  "CHR ''.'' \<notin> set ''web1''
   \<and> outcome (host_main sample_helper ascii_lower Absent [(''name'', VStr ''web1'')] 0) =
       Failed (Fail_json (Msg ''The hostname must be FQDN''))
   \<and> log (host_main sample_helper ascii_lower Absent [(''name'', VStr ''web1'')] 0) = []
   \<and> outcome (host_main sample_helper ascii_lower Present [(''name'', VStr ''web1'')] 0) =
       Failed (Fail_json (Msg ''The hostname must be FQDN''))"
proof -
  have o: "\<not> (has_key [(''name'', VStr ''web1'')] ''owner'' \<and>
              has_key [(''name'', VStr ''web1'')] ''owner_group'')"
    by (simp add: has_key_def)
  have n: "map_of [(''name'', VStr ''web1'')] ''name'' = Some (VStr ''web1'')"
    by simp
  have d: "CHR ''.'' \<notin> set ''web1''"
    by simp
  from host_name_must_be_fqdn [OF o n d, of sample_helper ascii_lower Absent 0]
    host_name_must_be_fqdn [OF o n d, of sample_helper ascii_lower Present 0] d
  show ?thesis
    by simp
qed

text \<open>
  Claim C9 as it is stated fails on an invocation that supplies both \<open>owner\<close> and
  \<open>owner_group\<close>: the constructor rejects it first, and the failure is not the one of
  the name check.
\<close>

theorem host_name_counterexample:
  "CHR ''.'' \<notin> set ''host'' \<and>
   outcome (host_main sample_helper ascii_lower Present
      [(''name'', VStr ''host''), (''owner'', VStr ''admin''), (''owner_group'', VStr ''ops'')] 0)
     \<noteq> Failed (Fail_json (Msg ''The hostname must be FQDN''))"
  by (simp add: host_main_def ForemanHostModule_def has_key_def)

text \<open>
  Claim C10, as amended. When the desired state is absent nothing is normalized: no
  warning, no coupling of \<open>build\<close> and \<open>managed\<close>, no lower-casing, no
  \<open>owner_type\<close>, no pruning of the interfaces; and once the invocation has passed the
  constructor and the name check and the connection is open, no references are looked up
  and \<open>module.run\<close> works on the supplied parameters without the key
  \<open>puppetclasses\<close>, which line 455 removes in every state.
\<close>

theorem host_absent_skips_normalization:
  assumes "desired_absent st"
  shows "normalize_params str_lower st fp = ([], Inr fp)
       \<and> (\<not> (has_key fp ''owner'' \<and> has_key fp ''owner_group'') \<and> check_hostname fp = None \<and>
          api_connection api s = (None, s1) \<longrightarrow>
            log (host_main api str_lower st fp s) =
              [Api_connection,
               Run (AList.delete ''puppetclasses'' fp)
                 (fst (run api (AList.delete ''puppetclasses'' fp) s1))] \<and>
            warnings (host_main api str_lower st fp s) = [])"
proof -
  have n: "normalize_params str_lower st fp = ([], Inr fp)"
    using assms by (simp add: normalize_params_def)
  have "\<not> (has_key fp ''owner'' \<and> has_key fp ''owner_group'') \<and> check_hostname fp = None \<and>
         api_connection api s = (None, s1) \<longrightarrow>
           log (host_main api str_lower st fp s) =
             [Api_connection,
              Run (AList.delete ''puppetclasses'' fp)
                (fst (run api (AList.delete ''puppetclasses'' fp) s1))] \<and>
           warnings (host_main api str_lower st fp s) = []"
  proof
    assume a: "\<not> (has_key fp ''owner'' \<and> has_key fp ''owner_group'') \<and> check_hostname fp = None \<and>
         api_connection api s = (None, s1)"
    then have "host_main api str_lower st fp s = host_connected api st fp [] s"
      using host_main_connected [OF _ _ n, of api s] by simp
    with a assms show "log (host_main api str_lower st fp s) =
             [Api_connection,
              Run (AList.delete ''puppetclasses'' fp)
                (fst (run api (AList.delete ''puppetclasses'' fp) s1))] \<and>
           warnings (host_main api str_lower st fp s) = []"
      by (auto simp: host_connected_def Let_def split: prod.splits sum.splits)
  qed
  with n show ?thesis by (rule conjI)
qed

theorem host_absent_skips_normalization_witness:
  "normalize_params ascii_lower Absent
     [(''name'', VStr ''WEB1.example.com''), (''build'', VBool True), (''managed'', VBool False),
      (''mac'', VStr ''AA:BB''), (''owner'', VStr ''admin'')] =
     ([], Inr [(''name'', VStr ''WEB1.example.com''), (''build'', VBool True),
               (''managed'', VBool False), (''mac'', VStr ''AA:BB''), (''owner'', VStr ''admin'')])
   \<and> log (host_main sample_helper ascii_lower Absent
       [(''name'', VStr ''WEB1.example.com''), (''build'', VBool True), (''managed'', VBool False),
        (''mac'', VStr ''AA:BB''), (''owner'', VStr ''admin'')] 0) =
     [Api_connection,
      Run [(''name'', VStr ''WEB1.example.com''), (''build'', VBool True),
           (''managed'', VBool False), (''mac'', VStr ''AA:BB''), (''owner'', VStr ''admin'')]
        (Inr (Some [(''id'', VInt 1), (''environment_id'', VInt 2)]))]
   \<and> warnings (host_main sample_helper ascii_lower Absent
       [(''name'', VStr ''WEB1.example.com''), (''build'', VBool True), (''managed'', VBool False),
        (''mac'', VStr ''AA:BB''), (''owner'', VStr ''admin'')] 0) = []"
proof -
  let ?fp = "[(''name'', VStr ''WEB1.example.com''), (''build'', VBool True),
      (''managed'', VBool False), (''mac'', VStr ''AA:BB''), (''owner'', VStr ''admin'')]"
  have a: "desired_absent Absent"
    by (simp add: desired_absent_def)
  have o: "\<not> (has_key ?fp ''owner'' \<and> has_key ?fp ''owner_group'')"
    by (simp add: has_key_def)
  have h: "check_hostname ?fp = None"
    by (simp add: check_hostname_def sublist_single)
  have c: "api_connection sample_helper 0 = (None, Suc 0)"
    by (simp add: sample_helper_def)
  have r: "fst (run sample_helper (AList.delete ''puppetclasses'' ?fp) (Suc 0)) =
      Inr (Some [(''id'', VInt 1), (''environment_id'', VInt 2)])"
    by (simp add: sample_helper_def)
  have d: "AList.delete ''puppetclasses'' ?fp = ?fp"
    by (simp add: AList.delete_eq)
  from host_absent_skips_normalization [OF a, of ascii_lower ?fp sample_helper 0 "Suc 0"] o h c r d
  show ?thesis
    by simp
qed

text \<open>
  Claim C10 as it is stated fails on an invocation that supplies \<open>puppetclasses\<close>:
  the parameters that reach \<open>module.run\<close> are not the supplied ones.
\<close>

theorem host_absent_counterexample:
  "log (host_main sample_helper ascii_lower Absent
      [(''name'', VStr ''h.example.com''), (''puppetclasses'', VList [VStr ''ntp''])] 0) =
     [Api_connection,
      Run [(''name'', VStr ''h.example.com'')]
        (Inr (Some [(''id'', VInt 1), (''environment_id'', VInt 2)]))] \<and>
   [(''name'', VStr ''h.example.com'')] \<noteq>
     [(''name'', VStr ''h.example.com''), (''puppetclasses'', VList [VStr ''ntp''])]"
  by (simp add: host_main_def ForemanHostModule_def has_key_def check_hostname_def
      sublist_single normalize_params_def desired_absent_def host_connected_def
      sample_helper_def AList.delete_eq Let_def)

section \<open>The claims about the installation medium module\<close>

lemma wildcard_absent_keys:
  assumes "has_key mp k" and "k \<noteq> ''name''" and "k \<noteq> ''entity''"
  shows "map fst mp \<noteq> [''name'', ''entity'']"
    and "k \<in> set (removeAll ''entity'' (removeAll ''name'' (map fst mp)))"
  using assms by (auto simp: has_key_def)

lemma check_wildcard_absent:
  assumes "has_key mp k" and "k \<noteq> ''name''" and "k \<noteq> ''entity''"
  shows "\<exists>f. check_wildcard Absent params mp = Some f"
  using wildcard_absent_keys(1) [OF assms]
  by (simp add: check_wildcard_def desired_absent_def split: option.splits)

text \<open>
  Claim C1, as amended. An invocation with the name \<open>*\<close> and the state absent whose
  parameters hold a key other than \<open>name\<close> (and \<open>entity\<close>, which the helper adds)
  fails with nothing done but opening the connection: no list, show, create, update or
  delete call. When the connection opens and \<open>updated_name\<close> is not truthy, the message
  is the one of lines 119-122 and enumerates the keys other than \<open>name\<close> and
  \<open>entity\<close>, the offending one among them. (With a truthy \<open>updated_name\<close> the
  failure is the one of line 117, see C5.)
\<close>

theorem medium_wildcard_absent_guard:
  assumes "map_of mp ''name'' = Some (VStr ''*'')"
    and "has_key mp k" and "k \<noteq> ''name''" and "k \<noteq> ''entity''"
  shows "log (installation_medium_main api Absent params mp s) = [Api_connection]
       \<and> (\<exists>f. outcome (installation_medium_main api Absent params mp s) = Failed f)
       \<and> (fst (api_connection api s) = None \<and>
          (\<exists>u. map_of params ''updated_name'' = Some u \<and> \<not> truthy u) \<longrightarrow>
            outcome (installation_medium_main api Absent params mp s) =
              Failed (Fail_json (Msg_keys
                ''When deleting all installation media, there is no need to specify further parameters: %s ''
                (removeAll ''entity'' (removeAll ''name'' (map fst mp))))) \<and>
            enumerates (Msg_keys
                ''When deleting all installation media, there is no need to specify further parameters: %s ''
                (removeAll ''entity'' (removeAll ''name'' (map fst mp)))) k)"
proof -
  from check_wildcard_absent [OF assms(2-4)]
  obtain f where f: "check_wildcard Absent params mp = Some f" by blast
  have 1: "log (installation_medium_main api Absent params mp s) = [Api_connection]"
    using assms(1) f by (simp add: installation_medium_main_def split: prod.splits option.splits)
  have 2: "\<exists>f. outcome (installation_medium_main api Absent params mp s) = Failed f"
    using assms(1) f by (simp add: installation_medium_main_def split: prod.splits option.splits)
  have 3: "fst (api_connection api s) = None \<and>
         (\<exists>u. map_of params ''updated_name'' = Some u \<and> \<not> truthy u) \<longrightarrow>
           outcome (installation_medium_main api Absent params mp s) =
             Failed (Fail_json (Msg_keys
               ''When deleting all installation media, there is no need to specify further parameters: %s ''
               (removeAll ''entity'' (removeAll ''name'' (map fst mp))))) \<and>
           enumerates (Msg_keys
               ''When deleting all installation media, there is no need to specify further parameters: %s ''
               (removeAll ''entity'' (removeAll ''name'' (map fst mp)))) k"
    using assms(1) wildcard_absent_keys [OF assms(2-4)]
    by (auto simp: installation_medium_main_def check_wildcard_def desired_absent_def
        AList.delete_keys split: prod.splits)
  from 1 2 3 show ?thesis by simp
qed

theorem medium_wildcard_absent_guard_witness:
  "log (installation_medium_main sample_helper Absent [(''updated_name'', VNone)]
      [(''name'', VStr ''*''), (''entity'', VStr ''*''), (''path'', VStr ''http://mirror/'')] 0) =
     [Api_connection]
   \<and> outcome (installation_medium_main sample_helper Absent [(''updated_name'', VNone)]
      [(''name'', VStr ''*''), (''entity'', VStr ''*''), (''path'', VStr ''http://mirror/'')] 0) =
     Failed (Fail_json (Msg_keys
       ''When deleting all installation media, there is no need to specify further parameters: %s ''
       [''path'']))
   \<and> enumerates (Msg_keys
       ''When deleting all installation media, there is no need to specify further parameters: %s ''
       [''path'']) ''path''"
proof -
  let ?mp = "[(''name'', VStr ''*''), (''entity'', VStr ''*''), (''path'', VStr ''http://mirror/'')]"
  have n: "map_of ?mp ''name'' = Some (VStr ''*'')"
    by simp
  have k: "has_key ?mp ''path''"
    by (simp add: has_key_def)
  have c: "fst (api_connection sample_helper 0) = None"
    by (simp add: sample_helper_def)
  have u: "map_of [(''updated_name'', VNone)] ''updated_name'' = Some VNone \<and> \<not> truthy VNone"
    by simp
  have r: "removeAll ''entity'' (removeAll ''name'' (map fst ?mp)) = [''path'']"
    by simp
  from medium_wildcard_absent_guard [OF n k, of sample_helper "[(''updated_name'', VNone)]" 0] c u r
  show ?thesis
    by auto
qed

text \<open>
  Claim C1 as it is stated fails when a truthy \<open>updated_name\<close> comes with the extra
  parameter: the failure is the one of line 117, whose message does not name the
  parameter \<open>path\<close>.
\<close>

theorem medium_wildcard_absent_counterexample:
  "outcome (installation_medium_main sample_helper Absent
      [(''updated_name'', VStr ''new'')]
      [(''name'', VStr ''*''), (''entity'', VStr ''*''), (''path'', VStr ''http://mirror/'')] 0) =
     Failed (Fail_json (Msg ''updated_name not allowed if 'name: *'!'')) \<and>
   \<not> enumerates (Msg ''updated_name not allowed if 'name: *'!'') ''path''"
proof -
  have "\<not> sublist ''path'' ''updated_name not allowed if 'name: *'!''"
    by code_simp
  then show ?thesis
    by (simp add: installation_medium_main_def sample_helper_def check_wildcard_def)
qed

text \<open>
  Claim C5. An invocation with the name \<open>*\<close> whose state is
  \<open>present_with_defaults\<close>, or that comes with a truthy \<open>updated_name\<close>, fails with
  nothing done but opening the connection (no list, show, create, update or delete call);
  when the connection opens, the failure is \<open>fail_json\<close> with the message of line 115
  or of line 117.
\<close>

theorem medium_wildcard_rejects:
  assumes "map_of mp ''name'' = Some (VStr ''*'')"
    and "st = Present_with_defaults \<or> (\<exists>u. map_of params ''updated_name'' = Some u \<and> truthy u)"
  shows "log (installation_medium_main api st params mp s) = [Api_connection]
       \<and> (\<exists>f. outcome (installation_medium_main api st params mp s) = Failed f)
       \<and> (fst (api_connection api s) = None \<longrightarrow>
            outcome (installation_medium_main api st params mp s) =
              Failed (Fail_json (Msg
                (if st = Present_with_defaults
                 then '''state: present_with_defaults' and 'name: *' cannot be used together''
                 else ''updated_name not allowed if 'name: *'!''))))"
  using assms
  by (auto simp: installation_medium_main_def check_wildcard_def split: prod.splits option.splits)

theorem medium_wildcard_rejects_witness:
  "log (installation_medium_main sample_helper Present_with_defaults [(''updated_name'', VNone)]
      [(''name'', VStr ''*''), (''entity'', VStr ''*'')] 0) = [Api_connection]
   \<and> outcome (installation_medium_main sample_helper Present_with_defaults
      [(''updated_name'', VNone)] [(''name'', VStr ''*''), (''entity'', VStr ''*'')] 0) =
     Failed (Fail_json (Msg
       '''state: present_with_defaults' and 'name: *' cannot be used together''))
   \<and> log (installation_medium_main sample_helper Present [(''updated_name'', VStr ''new'')]
      [(''name'', VStr ''*''), (''entity'', VStr ''*'')] 0) = [Api_connection]
   \<and> outcome (installation_medium_main sample_helper Present [(''updated_name'', VStr ''new'')]
      [(''name'', VStr ''*''), (''entity'', VStr ''*'')] 0) =
     Failed (Fail_json (Msg ''updated_name not allowed if 'name: *'!''))"
proof -
  let ?mp = "[(''name'', VStr ''*''), (''entity'', VStr ''*'')]"
  have n: "map_of ?mp ''name'' = Some (VStr ''*'')"
    by simp
  have a: "Present_with_defaults = Present_with_defaults \<or>
      (\<exists>u. map_of [(''updated_name'', VNone)] ''updated_name'' = Some u \<and> truthy u)"
    by simp
  have b: "Present = Present_with_defaults \<or>
      (\<exists>u. map_of [(''updated_name'', VStr ''new'')] ''updated_name'' = Some u \<and> truthy u)"
    by simp
  have c: "fst (api_connection sample_helper 0) = None"
    by (simp add: sample_helper_def)
  from medium_wildcard_rejects [OF n a, of sample_helper 0]
    medium_wildcard_rejects [OF n b, of sample_helper 0] c
  show ?thesis
    by simp
qed

text \<open>
  Claim C6. In an invocation with the name \<open>*\<close>, when the listing of the media is
  issued and returns no entity, the module ends by \<open>exit_json\<close> with
  \<open>changed = False\<close>, and its only remote call after opening the connection is that
  listing.
\<close>

theorem medium_wildcard_fast_exit:
  assumes "map_of mp ''name'' = Some (VStr ''*'')"
    and "api_connection api s = (c, s0)"
    and "list_resource api ''media'' s0 = (Inr [], s1)"
    and "List_resource ''media'' \<in> set (log (installation_medium_main api st params mp s))"
  shows "installation_medium_main api st params mp s =
           \<lparr>log = [Api_connection, List_resource ''media''], warnings = [],
            outcome = Exit_json False, remote = s1\<rparr>"
proof (cases c)
  case (Some f)
  with assms show ?thesis by (simp add: installation_medium_main_def)
next
  case None
  show ?thesis
  proof (cases "check_wildcard st params mp")
    case (Some f)
    with assms None show ?thesis by (simp add: installation_medium_main_def)
  next
    case n: None
    have "locate api st True mp False s0 = ([List_resource ''media''], Inl (Exit_json False), s1)"
      using assms(3) by (simp add: locate_def)
    with assms(1,2) None n show ?thesis by (simp add: installation_medium_main_def)
  qed
qed

theorem medium_wildcard_fast_exit_witness:
  "installation_medium_main sample_helper Present [(''updated_name'', VNone)]
      [(''name'', VStr ''*''), (''entity'', VStr ''*''), (''path'', VStr ''http://mirror/'')] 0 =
     \<lparr>log = [Api_connection, List_resource ''media''], warnings = [],
      outcome = Exit_json False, remote = Suc (Suc 0)\<rparr>
   \<and> installation_medium_main sample_helper Absent [(''updated_name'', VNone)]
      [(''name'', VStr ''*''), (''entity'', VStr ''*'')] 0 =
     \<lparr>log = [Api_connection, List_resource ''media''], warnings = [],
      outcome = Exit_json False, remote = Suc (Suc 0)\<rparr>"
proof -
  let ?mp = "[(''name'', VStr ''*''), (''entity'', VStr ''*''), (''path'', VStr ''http://mirror/'')]"
  let ?mq = "[(''name'', VStr ''*''), (''entity'', VStr ''*'')]"
  have n: "map_of ?mp ''name'' = Some (VStr ''*'')" and m: "map_of ?mq ''name'' = Some (VStr ''*'')"
    by simp_all
  have c: "api_connection sample_helper 0 = (None, Suc 0)"
    by (simp add: sample_helper_def)
  have l: "list_resource sample_helper ''media'' (Suc 0) = (Inr [], Suc (Suc 0))"
    by (simp add: sample_helper_def)
  have i: "List_resource ''media'' \<in> set (log (installation_medium_main sample_helper Present
      [(''updated_name'', VNone)] ?mp 0))"
    by (simp add: installation_medium_main_def sample_helper_def check_wildcard_def
        desired_absent_def locate_def)
  have j: "List_resource ''media'' \<in> set (log (installation_medium_main sample_helper Absent
      [(''updated_name'', VNone)] ?mq 0))"
    by (simp add: installation_medium_main_def sample_helper_def check_wildcard_def
        desired_absent_def locate_def)
  from medium_wildcard_fast_exit [OF n c l i] medium_wildcard_fast_exit [OF m c l j]
  show ?thesis
    by simp
qed

text \<open>
  Claim C3. In an invocation of the installation medium module whose state is not absent,
  when the resolved parameters hold exactly one operating system and no \<open>os_family\<close>:
  for a single medium, \<open>os_family\<close> is set to the family fetched from that operating
  system if and only if the medium was not found remotely, and \<open>ensure_entity\<close> then
  runs on the parameters so completed; when the medium was found, no operating system is
  fetched and \<open>ensure_entity\<close> runs on the resolved parameters as they are. Under the
  wildcard, where every reconciled medium exists, the resolved parameters are left as
  they are too.
\<close>

theorem medium_os_family_derivation:
  assumes "\<not> desired_absent st"
    and "resolve_entities api mp entity s1 = (Inr (e', mp'), s2)"
    and "map_of mp' ''operatingsystems'' = Some (VList [VDict os])"
    and "\<not> has_key mp' ''os_family''"
    and "map_of os ''id'' = Some i"
    and "show_resource api ''operatingsystems'' i s2 = (Inr body, s3)"
    and "map_of body ''family'' = Some family"
  shows "resolve api st False mp entity s1 =
           (if entity = None
            then ([Resolve_entities mp entity, Show_resource ''operatingsystems'' i],
                  Inr (AList.update ''os_family'' family mp'), s3)
            else ([Resolve_entities mp entity], Inr mp', s2))
       \<and> resolve api st True mp entity s1 = ([Resolve_entities mp entity], Inr mp', s2)
       \<and> (api_connection api s = (None, s0) \<and> map_of mp ''name'' = Some nm \<and>
          nm \<noteq> VStr ''*'' \<and> find_resource_by_name api ''media'' nm s0 = (Inr entity, s1) \<longrightarrow>
            log (installation_medium_main api st params mp s) =
              [Api_connection, Find_resource_by_name ''media'' nm] @
              (if entity = None
               then [Resolve_entities mp entity, Show_resource ''operatingsystems'' i,
                     Ensure_entity ''media'' (AList.update ''os_family'' family mp') None]
               else [Resolve_entities mp entity, Ensure_entity ''media'' mp' entity]))"
proof -
  have r: "resolve api st False mp entity s1 =
           (if entity = None
            then ([Resolve_entities mp entity, Show_resource ''operatingsystems'' i],
                  Inr (AList.update ''os_family'' family mp'), s3)
            else ([Resolve_entities mp entity], Inr mp', s2))"
    using assms by (simp add: resolve_def)
  have w: "resolve api st True mp entity s1 = ([Resolve_entities mp entity], Inr mp', s2)"
    using assms by (simp add: resolve_def)
  have m: "api_connection api s = (None, s0) \<and> map_of mp ''name'' = Some nm \<and>
         nm \<noteq> VStr ''*'' \<and> find_resource_by_name api ''media'' nm s0 = (Inr entity, s1) \<longrightarrow>
           log (installation_medium_main api st params mp s) =
             [Api_connection, Find_resource_by_name ''media'' nm] @
             (if entity = None
              then [Resolve_entities mp entity, Show_resource ''operatingsystems'' i,
                    Ensure_entity ''media'' (AList.update ''os_family'' family mp') None]
              else [Resolve_entities mp entity, Ensure_entity ''media'' mp' entity])"
    using r
    by (auto simp: installation_medium_main_def locate_def ensure_def
        split: prod.splits sum.splits)
  from r w m show ?thesis by simp
qed

theorem medium_os_family_derivation_witness:
  "log (installation_medium_main sample_helper Present [(''updated_name'', VNone)]
      [(''name'', VStr ''buster''), (''entity'', VStr ''buster''),
       (''operatingsystems'', VList [VDict [(''id'', VInt 3)]])] 0) =
     [Api_connection, Find_resource_by_name ''media'' (VStr ''buster''),
      Resolve_entities [(''name'', VStr ''buster''), (''entity'', VStr ''buster''),
                        (''operatingsystems'', VList [VDict [(''id'', VInt 3)]])] None,
      Show_resource ''operatingsystems'' (VInt 3),
      Ensure_entity ''media''
        [(''name'', VStr ''buster''), (''entity'', VStr ''buster''),
         (''operatingsystems'', VList [VDict [(''id'', VInt 3)]]),
         (''os_family'', VStr ''Debian'')] None]
   \<and> log (installation_medium_main sample_helper Present [(''updated_name'', VNone)]
      [(''name'', VStr ''wheezy''), (''entity'', VStr ''wheezy''),
       (''operatingsystems'', VList [VDict [(''id'', VInt 3)]])] 0) =
     [Api_connection, Find_resource_by_name ''media'' (VStr ''wheezy''),
      Resolve_entities [(''name'', VStr ''wheezy''), (''entity'', VStr ''wheezy''),
                        (''operatingsystems'', VList [VDict [(''id'', VInt 3)]])]
        (Some [(''id'', VInt 7), (''name'', VStr ''wheezy'')]),
      Ensure_entity ''media''
        [(''name'', VStr ''wheezy''), (''entity'', VStr ''wheezy''),
         (''operatingsystems'', VList [VDict [(''id'', VInt 3)]])]
        (Some [(''id'', VInt 7), (''name'', VStr ''wheezy'')])]"
proof -
  let ?new = "[(''name'', VStr ''buster''), (''entity'', VStr ''buster''),
       (''operatingsystems'', VList [VDict [(''id'', VInt 3)]])]"
  let ?old = "[(''name'', VStr ''wheezy''), (''entity'', VStr ''wheezy''),
       (''operatingsystems'', VList [VDict [(''id'', VInt 3)]])]"
  let ?found = "Some [(''id'', VInt 7), (''name'', VStr ''wheezy'')]"
  have p: "\<not> desired_absent Present"
    by (simp add: desired_absent_def)
  have rn: "resolve_entities sample_helper ?new None (Suc (Suc 0)) = (Inr (None, ?new), Suc (Suc (Suc 0)))"
    by (simp add: sample_helper_def)
  have ro: "resolve_entities sample_helper ?old ?found (Suc (Suc 0)) =
      (Inr (?found, ?old), Suc (Suc (Suc 0)))"
    by (simp add: sample_helper_def)
  have on: "map_of ?new ''operatingsystems'' = Some (VList [VDict [(''id'', VInt 3)]])"
    and oo: "map_of ?old ''operatingsystems'' = Some (VList [VDict [(''id'', VInt 3)]])"
    by simp_all
  have kn: "\<not> has_key ?new ''os_family''" and ko: "\<not> has_key ?old ''os_family''"
    by (simp_all add: has_key_def)
  have i: "map_of [(''id'', VInt 3)] ''id'' = Some (VInt 3)"
    by simp
  have sh: "show_resource sample_helper ''operatingsystems'' (VInt 3) (Suc (Suc (Suc 0))) =
      (Inr [(''id'', VInt 3), (''family'', VStr ''Debian'')], Suc (Suc (Suc (Suc 0))))"
    by (simp add: sample_helper_def)
  have f: "map_of [(''id'', VInt 3), (''family'', VStr ''Debian'')] ''family'' = Some (VStr ''Debian'')"
    by simp
  have c: "api_connection sample_helper 0 = (None, Suc 0)"
    by (simp add: sample_helper_def)
  have fn: "find_resource_by_name sample_helper ''media'' (VStr ''buster'') (Suc 0) =
      (Inr None, Suc (Suc 0))"
    by (simp add: sample_helper_def)
  have fo: "find_resource_by_name sample_helper ''media'' (VStr ''wheezy'') (Suc 0) =
      (Inr ?found, Suc (Suc 0))"
    by (simp add: sample_helper_def)
  have nn: "map_of ?new ''name'' = Some (VStr ''buster'') \<and> VStr ''buster'' \<noteq> VStr ''*''"
    and no: "map_of ?old ''name'' = Some (VStr ''wheezy'') \<and> VStr ''wheezy'' \<noteq> VStr ''*''"
    by simp_all
  from medium_os_family_derivation [OF p rn on kn i sh f,
      of 0 "Suc 0" "VStr ''buster''" "[(''updated_name'', VNone)]"]
    medium_os_family_derivation [OF p ro oo ko i sh f,
      of 0 "Suc 0" "VStr ''wheezy''" "[(''updated_name'', VNone)]"]
    c fn fo nn no
  show ?thesis
    by simp
qed


end
